theory Spec2Isabelle
  imports Complex_Main
begin

section \<open>Numbers and strings of the source language\<close>

text \<open>
  The TypeScript source computes with the single type \<open>number\<close>. Counts (protons, neutrons,
  positrons, shell occupancies) are modelled as \<open>int\<close>; lengths and indices as \<open>nat\<close>;
  quantities of the layout that go through a division, \<open>Math.sin\<close>, \<open>Math.cos\<close> or
  \<open>Math.PI\<close> are modelled as \<open>real\<close>, so the rounding of IEEE doubles is not part of the
  model.

  A division of the source never raises: a zero divisor gives \<open>Infinity\<close> or \<open>NaN\<close>. Every
  division by a variable goes through \<open>js_div\<close>, whose result \<open>None\<close> stands for such a
  non-finite value; arithmetic on it stays non-finite (\<open>map_option\<close>).
\<close>

definition js_div :: "real \<Rightarrow> real \<Rightarrow> real option" where
  "js_div a b = (if b = 0 then None else Some (a / b))"

text \<open>
  \<open>Array.from({ length: n })\<close> has \<open>ToLength n\<close> entries: none when \<open>n\<close> is negative. Its
  \<open>.map((_, index) => f index)\<close> is the image of the indices \<open>0 .. n - 1\<close>. Lists of the
  model are unbounded, as its numbers are: the limits of the engine (an array holds fewer
  than \<open>2^32\<close> entries, and memory is finite) are not part of the model.
\<close>

definition array_from_length_map :: "int \<Rightarrow> (nat \<Rightarrow> 'a) \<Rightarrow> 'a list" where
  "array_from_length_map n f = map f [0..<nat n]"

text \<open>The decimal text of an integer, as a template literal \<open>`${n}`\<close> prints it.\<close>

fun string_of_nat :: "nat \<Rightarrow> string" where
  "string_of_nat n =
     (if n < 10 then [''0123456789'' ! n]
      else string_of_nat (n div 10) @ [''0123456789'' ! (n mod 10)])"

declare string_of_nat.simps [simp del]

definition number_to_string :: "int \<Rightarrow> string" where
  "number_to_string i =
     (if i < 0 then CHR ''-'' # string_of_nat (nat (- i)) else string_of_nat (nat i))"


section \<open>Data model and isotope construction (src/server/data/elements.ts)\<close>

text \<open>
  Field names are those of the source. Where two interfaces share a field name
  (\<open>name\<close>, \<open>neutrons\<close>, \<open>positrons\<close>), the field is written with its record's name,
  as in \<open>IsotopeFields.neutrons\<close>; \<open>id\<close> and \<open>notes\<close> are written \<open>id'\<close> and \<open>notes'\<close>. An optional field
  (\<open>notes?\<close>, \<open>halfLife?\<close>, \<open>positrons?\<close>, \<open>appearance?\<close>) is an \<open>option\<close>.
\<close>

record BohrModel =
  shells :: "int list"
  electronConfiguration :: string
  notes' :: "string option"

text \<open>
  \<open>IsotopeFields\<close> holds what \<open>Isotope\<close> and the options of \<open>buildIsotope\<close>
  (\<open>Omit<Isotope, "id" | "particleBreakdown"> & { positrons?: number }\<close>) have in common.
\<close>

record IsotopeFields =
  name :: string
  neutrons :: int
  abundance :: string
  description :: string
  halfLife :: "string option"
  bohrModel :: BohrModel

record IsotopeOptions = IsotopeFields +
  positrons :: "int option"

record QuarkBreakdown =
  up :: int
  down :: int

record ParticleBreakdown =
  protons :: int
  neutrons :: int
  electrons :: int
  quarks :: QuarkBreakdown
  positrons :: "int option"

record Isotope = IsotopeFields +
  id' :: string
  particleBreakdown :: ParticleBreakdown

text \<open>\<open>ElementRef\<close> is \<open>Pick<Element, "atomicNumber" | "symbol">\<close>.\<close>

record ElementRef =
  atomicNumber :: int
  symbol :: string

record Element = ElementRef +
  name :: string
  group :: int
  period :: int
  category :: string
  atomicMass :: real
  summary :: string
  appearance :: "string option"
  isotopes :: "Isotope list"

text \<open>
  A parameter or local constant of the source whose name is also a field of a record is
  bound by \<open>\<lambda>\<close> or \<open>let\<close> under its own name.
\<close>

definition buildQuarks :: "int \<Rightarrow> int \<Rightarrow> QuarkBreakdown" where
  "buildQuarks = (\<lambda>protons neutrons.
     \<lparr> up = protons * 2 + neutrons, down = protons + neutrons * 2 \<rparr>)"

text \<open>
  The spread \<open>...options\<close> also copies a given \<open>positrons\<close> option into the result, a
  property outside the interface \<open>Isotope\<close>; the model leaves it out.
\<close>

definition buildIsotope :: "ElementRef \<Rightarrow> IsotopeOptions \<Rightarrow> Isotope" where
  "buildIsotope element options =
     (let neutrons = IsotopeFields.neutrons options;
          positrons = (case IsotopeOptions.positrons options of None \<Rightarrow> 0 | Some v \<Rightarrow> v);
          protons = atomicNumber element;
          electrons = max (protons - positrons) 0
      in \<lparr> IsotopeFields.name = IsotopeFields.name options,
           IsotopeFields.neutrons = neutrons,
           abundance = abundance options,
           description = description options,
           halfLife = halfLife options,
           bohrModel = bohrModel options,
           id' = symbol element @ ''-'' @ number_to_string (protons + neutrons),
           particleBreakdown =
             \<lparr> protons = protons,
               neutrons = neutrons,
               electrons = electrons,
               quarks = buildQuarks protons neutrons,
               positrons = Some positrons \<rparr> \<rparr>)"

subsection \<open>Two entries of the exported \<open>elements\<close> array\<close>

definition carbon12 :: Isotope where
  "carbon12 = buildIsotope \<lparr> atomicNumber = 6, symbol = ''C'' \<rparr>
     \<lparr> IsotopeFields.name = ''Carbon-12'',
       IsotopeFields.neutrons = 6,
       abundance = ''98.93%'',
       description = ''Benchmark isotope defining the atomic mass unit. Its symmetric nucleus underpins organic molecules everywhere.'',
       halfLife = None,
       bohrModel = \<lparr> shells = [2, 4], electronConfiguration = ''1s2 2s2 2p2'',
         notes' = Some ''Four valence electrons enable tetrahedral bonding that shapes hydrocarbons and diamond lattices.'' \<rparr>,
       IsotopeOptions.positrons = None \<rparr>"

definition carbon13 :: Isotope where
  "carbon13 = buildIsotope \<lparr> atomicNumber = 6, symbol = ''C'' \<rparr>
     \<lparr> IsotopeFields.name = ''Carbon-13'',
       IsotopeFields.neutrons = 7,
       abundance = ''1.07%'',
       description = ''NMR-friendly isotope whose nuclear spin lets chemists map complex molecules with clarity.'',
       halfLife = None,
       bohrModel = \<lparr> shells = [2, 4], electronConfiguration = ''1s2 2s2 2p2'',
         notes' = Some ''Slightly heavier core shifts vibrational spectra used to monitor metabolic pathways.'' \<rparr>,
       IsotopeOptions.positrons = None \<rparr>"

definition carbon14 :: Isotope where
  "carbon14 = buildIsotope \<lparr> atomicNumber = 6, symbol = ''C'' \<rparr>
     \<lparr> IsotopeFields.name = ''Carbon-14'',
       IsotopeFields.neutrons = 8,
       abundance = ''Trace'',
       description = ''Radiocarbon isotope forged in the upper atmosphere. Archaeologists rely on its decay clock to date human history.'',
       halfLife = Some ''5730 years'',
       bohrModel = \<lparr> shells = [2, 4], electronConfiguration = ''1s2 2s2 2p2'',
         notes' = Some ''Radioactive beta decay converts a neutron into a proton and electron, slowly transforming the atom into nitrogen.'' \<rparr>,
       IsotopeOptions.positrons = None \<rparr>"

definition carbon :: Element where
  "carbon =
     \<lparr> atomicNumber = 6, symbol = ''C'',
       Element.name = ''Carbon'', group = 14, period = 2,
       category = ''polyatomic nonmetal'', atomicMass = 12.011,
       summary = ''Carbon constructs life, graphite, and dazzling diamonds. Its versatility stems from four valence electrons and tiny atomic size.'',
       appearance = None,
       isotopes = [carbon12, carbon13, carbon14] \<rparr>"

definition fluorine19 :: Isotope where
  "fluorine19 = buildIsotope \<lparr> atomicNumber = 9, symbol = ''F'' \<rparr>
     \<lparr> IsotopeFields.name = ''Fluorine-19'',
       IsotopeFields.neutrons = 10,
       abundance = ''100%'',
       description = ''The sole stable fluorine isotope. Its nuclear spin of 1/2 makes it a star in NMR spectroscopy.'',
       halfLife = None,
       bohrModel = \<lparr> shells = [2, 7], electronConfiguration = ''1s2 2s2 2p5'',
         notes' = Some (''An almost-filled p shell drives fluorine'' @ [CHR 0x27] @ ''s hunger for electrons and intense reactivity.'') \<rparr>,
       IsotopeOptions.positrons = None \<rparr>"

definition fluorine18 :: Isotope where
  "fluorine18 = buildIsotope \<lparr> atomicNumber = 9, symbol = ''F'' \<rparr>
     \<lparr> IsotopeFields.name = ''Fluorine-18'',
       IsotopeFields.neutrons = 9,
       abundance = ''Synthetic'',
       description = ''Positron-emitting isotope essential for PET scans. It illuminates metabolic hotspots inside the human body.'',
       halfLife = Some ''109.8 min'',
       bohrModel = \<lparr> shells = [2, 7], electronConfiguration = ''1s2 2s2 2p5'',
         notes' = Some ''During decay a positron emerges, quickly annihilating with an electron to produce diagnostic gamma rays.'' \<rparr>,
       IsotopeOptions.positrons = Some 1 \<rparr>"

definition fluorine :: Element where
  "fluorine =
     \<lparr> atomicNumber = 9, symbol = ''F'',
       Element.name = ''Fluorine'', group = 17, period = 2,
       category = ''halogen'', atomicMass = 18.998,
       summary = ''Fluorine is the most electronegative element, carving bonds in Teflon and powering tooth enamel via fluoride.'',
       appearance = None,
       isotopes = [fluorine19, fluorine18] \<rparr>"


section \<open>Lookup routes (the Express server)\<close>

text \<open>
  A string of the model is the UTF-8 encoding of the source's string; equality of strings
  is equality of these byte lists.

  \<open>String.prototype.toLowerCase\<close> is a built-in of the runtime. It applies the Unicode
  case mapping, whose tables are not part of this repository and which reaches beyond
  ASCII (the Kelvin sign U+212A lower-cases to \<open>k\<close>). The handlers therefore take it as
  their first parameter, \<open>toLowerCase\<close>: what is proved of them holds of the runtime's
  function, whatever it does to a string.

  A response is its HTTP status and its JSON body. \<open>res.json(v)\<close> answers with status 200,
  \<open>res.status(404).json({ error: msg })\<close> with status 404. The state of the server is the
  module-level array \<open>elements\<close>. A handler takes this array and the route parameters of
  the request, and returns the response together with the array as the handler leaves it.
\<close>

datatype Body =
  ElementJson Element
  | ElementIsotopeJson Element Isotope
  | ErrorJson string

record Response =
  status :: nat
  body :: Body

definition quoted :: "string \<Rightarrow> string" where
  "quoted s = [CHR 0x27] @ s @ [CHR 0x27]"

text \<open>\<open>app.get("/api/elements/:symbol", ...)\<close>\<close>

definition get_element ::
  "(string \<Rightarrow> string) \<Rightarrow> Element list \<Rightarrow> string \<Rightarrow> Response \<times> Element list" where
  "get_element toLowerCase elements symbolParam =
     (let s = toLowerCase symbolParam in
      case find (\<lambda>item. toLowerCase (symbol item) = s) elements of
        None \<Rightarrow>
          (\<lparr> status = 404,
             body = ErrorJson (''Element '' @ quoted symbolParam @ '' not found.'') \<rparr>,
           elements)
      | Some element \<Rightarrow> (\<lparr> status = 200, body = ElementJson element \<rparr>, elements))"

text \<open>\<open>app.get("/api/elements/:symbol/isotopes/:isotopeId", ...)\<close>\<close>

definition get_isotope ::
  "(string \<Rightarrow> string) \<Rightarrow> Element list \<Rightarrow> string \<Rightarrow> string \<Rightarrow> Response \<times> Element list" where
  "get_isotope toLowerCase elements symbolParam isotopeId =
     (let s = toLowerCase symbolParam in
      case find (\<lambda>item. toLowerCase (symbol item) = s) elements of
        None \<Rightarrow>
          (\<lparr> status = 404,
             body = ErrorJson (''Element '' @ quoted symbolParam @ '' not found.'') \<rparr>,
           elements)
      | Some element \<Rightarrow>
          (case find (\<lambda>item. toLowerCase (id' item) = toLowerCase isotopeId) (isotopes element) of
             None \<Rightarrow>
               (\<lparr> status = 404,
                  body = ErrorJson (''Isotope '' @ quoted isotopeId @ '' not found for element ''
                           @ quoted symbolParam @ ''.'') \<rparr>,
                elements)
           | Some isotope \<Rightarrow>
               (\<lparr> status = 200, body = ElementIsotopeJson element isotope \<rparr>, elements)))"

subsection \<open>Lower-casing on ASCII strings\<close>

text \<open>
  On a string of ASCII characters only (\<open>is_ascii\<close>) the Unicode case mapping moves the
  letters \<open>A\<close> to \<open>Z\<close> (codes 65 to 90) to code + 32 and keeps every other character.
  \<open>ascii_toLowerCase\<close> is this mapping. It stands for the built-in on ASCII strings only:
  the symbols and isotope ids of the dataset are such strings.
\<close>

definition is_ascii :: "string \<Rightarrow> bool" where
  "is_ascii s = list_all (\<lambda>c. (of_char c :: nat) < 128) s"

definition ascii_lower_char :: "char \<Rightarrow> char" where
  "ascii_lower_char c =
     (let n = (of_char c :: nat) in if 65 \<le> n \<and> n \<le> 90 then char_of (n + 32) else c)"

definition ascii_toLowerCase :: "string \<Rightarrow> string" where
  "ascii_toLowerCase s = map ascii_lower_char s"

text \<open>
  Case-insensitive equality of ASCII strings as the specification words it, stated on
  character codes without reference to lower-casing: two strings of the same length
  whose characters agree position by position up to the case of a letter.
\<close>

definition same_letter :: "char \<Rightarrow> char \<Rightarrow> bool" where
  "same_letter c d =
     (let m = (of_char c :: nat); n = (of_char d :: nat)
      in m = n \<or> (65 \<le> m \<and> m \<le> 90 \<and> n = m + 32) \<or> (65 \<le> n \<and> n \<le> 90 \<and> m = n + 32))"

definition ascii_case_insensitive_equal :: "string \<Rightarrow> string \<Rightarrow> bool" where
  "ascii_case_insensitive_equal a b = list_all2 same_letter a b"


section \<open>Bohr model view\<close>

text \<open>
  \<open>BohrModelView\<close> is a React component. Its model is the geometry it renders: the sizes
  in the style of the diagram and of the nucleus, and for each shell the \<open>bohr-shell\<close>
  element with its \<open>bohr-electron\<close> children. Class names, React keys, the accent colour of
  the nucleus and the text panel beside the diagram carry no geometry and are left out.
\<close>

record Electron =
  rotate' :: "real option"
  translateX :: "real option"

record BohrShell =
  radius :: "real option"
  duration :: nat
  width :: "real option"
  height :: "real option"
  bohrElectrons :: "Electron list"

text \<open>The body of \<open>shells.map((electronCount, shellIndex) => ...)\<close>.\<close>

definition bohrShell :: "real \<Rightarrow> real option \<Rightarrow> int \<Rightarrow> nat \<Rightarrow> BohrShell" where
  "bohrShell nucleusRadius orbitSpacing electronCount shellIndex =
     (let radius = map_option (\<lambda>s. nucleusRadius + s * (real shellIndex + 1)) orbitSpacing;
          duration = 14 + shellIndex * 5
      in \<lparr> radius = radius,
           duration = duration,
           width = map_option (\<lambda>r. r * 2) radius,
           height = map_option (\<lambda>r. r * 2) radius,
           bohrElectrons =
             array_from_length_map electronCount
               (\<lambda>electronIndex.
                  \<lparr> rotate' = map_option (\<lambda>q. q * real electronIndex)
                               (js_div 360 (real_of_int electronCount)),
                    translateX = radius \<rparr>) \<rparr>)"

record BohrLayout =
  diagramSize :: real
  nucleusSize :: real
  nucleusRadius :: real
  orbitSpacing :: "real option"
  bohrShells :: "BohrShell list"

definition BohrModelView :: "Isotope \<Rightarrow> BohrLayout" where
  "BohrModelView isotope =
     (let shells = shells (bohrModel isotope);
          shellCount = real (length shells);
          diagramSize = min 480 (300 + max (shellCount - 3) 0 * 48);
          nucleusSize = min 120 (max 72 (54 + shellCount * 6));
          nucleusRadius = nucleusSize / 2;
          orbitSpacing =
            (if shellCount > 0 then js_div (diagramSize / 2 - 20 - nucleusRadius) shellCount
             else Some 0)
      in \<lparr> diagramSize = diagramSize,
           nucleusSize = nucleusSize,
           nucleusRadius = nucleusRadius,
           orbitSpacing = orbitSpacing,
           bohrShells =
             map (\<lambda>shellIndex. bohrShell nucleusRadius orbitSpacing (shells ! shellIndex) shellIndex)
               [0..<length shells] \<rparr>)"


section \<open>Quantum arena: nucleus swarm and particle mist\<close>

text \<open>
  A \<open>nucleus-particle\<close> element: its background colour, the three arguments of
  \<open>translate3d\<close> and the animation delay in seconds.
\<close>

record NucleusParticle =
  background :: string
  translate3d :: "real option \<times> real option \<times> real"
  animationDelay :: real

definition renderNucleusSwarm :: "int \<Rightarrow> int \<Rightarrow> NucleusParticle list" where
  "renderNucleusSwarm = (\<lambda>protons neutrons.
      let limit = 28;
          total = min (protons + neutrons) limit
      in array_from_length_map total
           (\<lambda>index.
              let angle = map_option (\<lambda>q. q * pi * 2) (js_div (real index) (real_of_int total));
                  radius = 24;
                  depth = sin (real index) * 10;
                  isProton = (index mod 2 = 0)
              in \<lparr> background = (if isProton then ''#fb7185'' else ''#38bdf8''),
                   translate3d =
                     (map_option (\<lambda>a. cos a * radius) angle,
                      map_option (\<lambda>a. sin a * radius) angle,
                      depth),
                   animationDelay = real index * 0.12 \<rparr>))"

record ParticleDescriptor =
  color :: string
  delay :: real
  x :: "real option"
  y :: "real option"
  z :: real

definition buildParticleDescriptors :: "int \<Rightarrow> string \<Rightarrow> ParticleDescriptor list" where
  "buildParticleDescriptors = (\<lambda>count color.
      let limit = min count 24
      in array_from_length_map limit
           (\<lambda>index.
              let angle = map_option (\<lambda>q. q * pi * 2)
                            (js_div (real index) (real_of_int (max limit 1)))
              in \<lparr> color = color,
                   delay = real index * 0.18,
                   x = map_option (\<lambda>a. cos a * 110) angle,
                   y = map_option (\<lambda>a. sin a * 90) angle,
                   z = sin (real index * 1.5) * 60 \<rparr>))"

text \<open>\<open>ParticleMist\<close>: the descriptors of the three categories, in this order.\<close>

definition ParticleMist :: "int \<Rightarrow> int \<Rightarrow> int \<Rightarrow> ParticleDescriptor list" where
  "ParticleMist = (\<lambda>quarksUp quarksDown positrons.
     buildParticleDescriptors quarksUp ''#c084fc''
     @ buildParticleDescriptors quarksDown ''#818cf8''
     @ buildParticleDescriptors positrons ''#facc15'')"


section \<open>Properties of the lookup routes\<close>

lemma of_char_ascii_lower_char:
  "(of_char (ascii_lower_char c) :: nat) =
     (if 65 \<le> (of_char c :: nat) \<and> (of_char c :: nat) \<le> 90 then of_char c + 32 else of_char c)"
  by (simp add: ascii_lower_char_def Let_def)

lemma ascii_lower_char_eq_iff:
  "ascii_lower_char c = ascii_lower_char d \<longleftrightarrow> same_letter c d"
proof -
  have "ascii_lower_char c = ascii_lower_char d \<longleftrightarrow>
        (of_char (ascii_lower_char c) :: nat) = of_char (ascii_lower_char d)"
    by simp
  also have "\<dots> \<longleftrightarrow> same_letter c d"
    unfolding of_char_ascii_lower_char same_letter_def Let_def by auto
  finally show ?thesis .
qed

text \<open>Equality of the lower-cased ASCII strings is their case-insensitive equality.\<close>

lemma ascii_toLowerCase_eq_iff:
  "ascii_toLowerCase a = ascii_toLowerCase b \<longleftrightarrow> ascii_case_insensitive_equal a b"
proof (induction a arbitrary: b)
  case Nil
  then show ?case
    by (simp add: ascii_toLowerCase_def ascii_case_insensitive_equal_def)
next
  case (Cons c cs)
  then show ?case
    by (cases b)
      (simp_all add: ascii_toLowerCase_def ascii_case_insensitive_equal_def
        ascii_lower_char_eq_iff)
qed

text \<open>
  A lower-casing function that acts on ASCII strings as \<open>ascii_toLowerCase\<close> identifies two
  ASCII strings exactly when they are case-insensitively equal.
\<close>

lemma ascii_match_iff:
  assumes "\<forall>s. is_ascii s \<longrightarrow> toLowerCase s = ascii_toLowerCase s"
    and "is_ascii a" and "is_ascii b"
  shows "toLowerCase a = toLowerCase b \<longleftrightarrow> ascii_case_insensitive_equal a b"
  using assms by (simp add: ascii_toLowerCase_eq_iff)

lemma find_None_bex: "find P xs = None \<longleftrightarrow> \<not> (\<exists>v\<in>set xs. P v)"
  by (auto simp: find_None_iff)

lemma find_Some_in_set: "find P xs = Some v \<Longrightarrow> v \<in> set xs \<and> P v"
  by (auto simp: find_Some_iff)

text \<open>The handlers leave the array \<open>elements\<close> as they found it.\<close>

lemma get_element_state: "snd (get_element toLowerCase elements symbolParam) = elements"
  by (simp add: get_element_def Let_def split: option.split)

lemma get_isotope_state:
  "snd (get_isotope toLowerCase elements symbolParam isotopeId) = elements"
  by (simp add: get_isotope_def Let_def split: option.split)

text \<open>The response of each handler, by the outcome of its searches.\<close>

lemma get_element_response:
  "fst (get_element toLowerCase elements symbolParam) =
     (case find (\<lambda>e. toLowerCase (symbol e) = toLowerCase symbolParam) elements of
        None \<Rightarrow>
          \<lparr> status = 404, body = ErrorJson (''Element '' @ quoted symbolParam @ '' not found.'') \<rparr>
      | Some element \<Rightarrow> \<lparr> status = 200, body = ElementJson element \<rparr>)"
  by (simp add: get_element_def Let_def split: option.split)

lemma get_isotope_response:
  "fst (get_isotope toLowerCase elements symbolParam isotopeId) =
     (case find (\<lambda>e. toLowerCase (symbol e) = toLowerCase symbolParam) elements of
        None \<Rightarrow>
          \<lparr> status = 404, body = ErrorJson (''Element '' @ quoted symbolParam @ '' not found.'') \<rparr>
      | Some element \<Rightarrow>
          (case find (\<lambda>i. toLowerCase (id' i) = toLowerCase isotopeId) (isotopes element) of
             None \<Rightarrow>
               \<lparr> status = 404,
                 body = ErrorJson (''Isotope '' @ quoted isotopeId @ '' not found for element ''
                          @ quoted symbolParam @ ''.'') \<rparr>
           | Some isotope \<Rightarrow> \<lparr> status = 200, body = ElementIsotopeJson element isotope \<rparr>))"
  by (simp add: get_isotope_def Let_def split: option.split)

lemma get_element_not_found:
  "(status (fst (get_element toLowerCase elements symbolParam)) = 404 \<longleftrightarrow>
      \<not> (\<exists>e\<in>set elements. toLowerCase (symbol e) = toLowerCase symbolParam))
   \<and> (status (fst (get_element toLowerCase elements symbolParam)) \<noteq> 404 \<longrightarrow>
        (\<exists>e. find (\<lambda>e. toLowerCase (symbol e) = toLowerCase symbolParam) elements = Some e
           \<and> fst (get_element toLowerCase elements symbolParam) =
               \<lparr> status = 200, body = ElementJson e \<rparr>))"
proof (cases "find (\<lambda>e. toLowerCase (symbol e) = toLowerCase symbolParam) elements")
  case None
  moreover from None
  have "\<not> (\<exists>e\<in>set elements. toLowerCase (symbol e) = toLowerCase symbolParam)"
    by (simp add: find_None_bex)
  ultimately show ?thesis
    by (simp add: get_element_response)
next
  case (Some e)
  then have "\<exists>e\<in>set elements. toLowerCase (symbol e) = toLowerCase symbolParam"
    using find_Some_in_set by fastforce
  with Some show ?thesis
    by (simp add: get_element_response)
qed

lemma get_isotope_not_found:
  "(status (fst (get_isotope toLowerCase elements symbolParam isotopeId)) = 404 \<longleftrightarrow>
        \<not> (\<exists>e\<in>set elements. toLowerCase (symbol e) = toLowerCase symbolParam)
        \<or> (\<exists>e. find (\<lambda>e. toLowerCase (symbol e) = toLowerCase symbolParam) elements = Some e
              \<and> \<not> (\<exists>i\<in>set (isotopes e). toLowerCase (id' i) = toLowerCase isotopeId)))
   \<and> (status (fst (get_isotope toLowerCase elements symbolParam isotopeId)) \<noteq> 404 \<longrightarrow>
        (\<exists>e i. find (\<lambda>e. toLowerCase (symbol e) = toLowerCase symbolParam) elements = Some e
           \<and> find (\<lambda>i. toLowerCase (id' i) = toLowerCase isotopeId) (isotopes e) = Some i
           \<and> fst (get_isotope toLowerCase elements symbolParam isotopeId) =
               \<lparr> status = 200, body = ElementIsotopeJson e i \<rparr>))"
proof (cases "find (\<lambda>e. toLowerCase (symbol e) = toLowerCase symbolParam) elements")
  case None
  moreover from None
  have "\<not> (\<exists>e\<in>set elements. toLowerCase (symbol e) = toLowerCase symbolParam)"
    by (simp add: find_None_bex)
  ultimately show ?thesis
    by (simp add: get_isotope_response)
next
  case (Some e)
  then have ex: "\<exists>e\<in>set elements. toLowerCase (symbol e) = toLowerCase symbolParam"
    using find_Some_in_set by fastforce
  show ?thesis
  proof (cases "find (\<lambda>i. toLowerCase (id' i) = toLowerCase isotopeId) (isotopes e)")
    case None
    moreover from None
    have "\<not> (\<exists>i\<in>set (isotopes e). toLowerCase (id' i) = toLowerCase isotopeId)"
      by (simp add: find_None_bex)
    ultimately show ?thesis
      using Some ex by (simp add: get_isotope_response)
  next
    case inner: (Some i)
    then have "\<exists>i\<in>set (isotopes e). toLowerCase (id' i) = toLowerCase isotopeId"
      using find_Some_in_set by fastforce
    then show ?thesis
      using Some ex inner by (simp add: get_isotope_response)
  qed
qed

text \<open>
  The handlers follow the runtime's lower-casing beyond ASCII: whenever it identifies the
  requested symbol with the symbol of an element of the array, the element route answers
  200. A request for the Kelvin sign, which the runtime lower-cases to \<open>k\<close>, finds the
  element \<open>K\<close>.
\<close>

lemma get_element_found:
  assumes "e \<in> set elements"
    and "toLowerCase (symbol e) = toLowerCase symbolParam"
  shows "status (fst (get_element toLowerCase elements symbolParam)) = 200"
proof -
  from assms
  have "find (\<lambda>e. toLowerCase (symbol e) = toLowerCase symbolParam) elements \<noteq> None"
    by (auto simp: find_None_bex)
  then show ?thesis
    by (auto simp: get_element_response)
qed

text \<open>
  C9. Element and isotope lookup match the symbol and the isotope id case-insensitively:
  two strings match when their lower-case forms are equal. The element route answers 404
  exactly when no element of the array has a matching symbol, and otherwise answers 200
  with the first such element. The isotope route answers 404 exactly when no element
  matches, or the first matching element has no isotope with a matching id, and otherwise
  answers 200 with that element and its first matching isotope. Neither handler has a
  side effect: each leaves the array \<open>elements\<close> as it found it. Where the lower-casing acts
  on ASCII strings as the built-in does, and the symbols, the ids and the route
  parameters are ASCII strings, as the dataset's are, matching is equality up to the case
  of letters.
\<close>

theorem lookup_not_found_iff:
  "(status (fst (get_element toLowerCase elements symbolParam)) = 404 \<longleftrightarrow>
      \<not> (\<exists>e\<in>set elements. toLowerCase (symbol e) = toLowerCase symbolParam))
   \<and> (status (fst (get_element toLowerCase elements symbolParam)) \<noteq> 404 \<longrightarrow>
        (\<exists>e. find (\<lambda>e. toLowerCase (symbol e) = toLowerCase symbolParam) elements = Some e
           \<and> fst (get_element toLowerCase elements symbolParam) =
               \<lparr> status = 200, body = ElementJson e \<rparr>))
   \<and> (status (fst (get_isotope toLowerCase elements symbolParam isotopeId)) = 404 \<longleftrightarrow>
        \<not> (\<exists>e\<in>set elements. toLowerCase (symbol e) = toLowerCase symbolParam)
        \<or> (\<exists>e. find (\<lambda>e. toLowerCase (symbol e) = toLowerCase symbolParam) elements = Some e
              \<and> \<not> (\<exists>i\<in>set (isotopes e). toLowerCase (id' i) = toLowerCase isotopeId)))
   \<and> (status (fst (get_isotope toLowerCase elements symbolParam isotopeId)) \<noteq> 404 \<longrightarrow>
        (\<exists>e i. find (\<lambda>e. toLowerCase (symbol e) = toLowerCase symbolParam) elements = Some e
           \<and> find (\<lambda>i. toLowerCase (id' i) = toLowerCase isotopeId) (isotopes e) = Some i
           \<and> fst (get_isotope toLowerCase elements symbolParam isotopeId) =
               \<lparr> status = 200, body = ElementIsotopeJson e i \<rparr>))
   \<and> snd (get_element toLowerCase elements symbolParam) = elements
   \<and> snd (get_isotope toLowerCase elements symbolParam isotopeId) = elements
   \<and> ((\<forall>s. is_ascii s \<longrightarrow> toLowerCase s = ascii_toLowerCase s)
        \<and> is_ascii symbolParam \<and> (\<forall>e\<in>set elements. is_ascii (symbol e)) \<longrightarrow>
        (status (fst (get_element toLowerCase elements symbolParam)) = 404 \<longleftrightarrow>
           \<not> (\<exists>e\<in>set elements. ascii_case_insensitive_equal (symbol e) symbolParam)))
   \<and> ((\<forall>s. is_ascii s \<longrightarrow> toLowerCase s = ascii_toLowerCase s)
        \<and> is_ascii symbolParam \<and> is_ascii isotopeId
        \<and> (\<forall>e\<in>set elements. is_ascii (symbol e) \<and> (\<forall>i\<in>set (isotopes e). is_ascii (id' i))) \<longrightarrow>
        (status (fst (get_isotope toLowerCase elements symbolParam isotopeId)) = 404 \<longleftrightarrow>
           \<not> (\<exists>e\<in>set elements. ascii_case_insensitive_equal (symbol e) symbolParam)
           \<or> (\<exists>e. find (\<lambda>e. ascii_case_insensitive_equal (symbol e) symbolParam) elements = Some e
                 \<and> \<not> (\<exists>i\<in>set (isotopes e). ascii_case_insensitive_equal (id' i) isotopeId))))"
proof (intro conjI impI)
  show "status (fst (get_element toLowerCase elements symbolParam)) = 404 \<longleftrightarrow>
      \<not> (\<exists>e\<in>set elements. toLowerCase (symbol e) = toLowerCase symbolParam)"
    using get_element_not_found by blast
  show "\<exists>e. find (\<lambda>e. toLowerCase (symbol e) = toLowerCase symbolParam) elements = Some e
           \<and> fst (get_element toLowerCase elements symbolParam) =
               \<lparr> status = 200, body = ElementJson e \<rparr>"
    if "status (fst (get_element toLowerCase elements symbolParam)) \<noteq> 404"
    using that get_element_not_found by blast
  show "status (fst (get_isotope toLowerCase elements symbolParam isotopeId)) = 404 \<longleftrightarrow>
        \<not> (\<exists>e\<in>set elements. toLowerCase (symbol e) = toLowerCase symbolParam)
        \<or> (\<exists>e. find (\<lambda>e. toLowerCase (symbol e) = toLowerCase symbolParam) elements = Some e
              \<and> \<not> (\<exists>i\<in>set (isotopes e). toLowerCase (id' i) = toLowerCase isotopeId))"
    using get_isotope_not_found by blast
  show "\<exists>e i. find (\<lambda>e. toLowerCase (symbol e) = toLowerCase symbolParam) elements = Some e
           \<and> find (\<lambda>i. toLowerCase (id' i) = toLowerCase isotopeId) (isotopes e) = Some i
           \<and> fst (get_isotope toLowerCase elements symbolParam isotopeId) =
               \<lparr> status = 200, body = ElementIsotopeJson e i \<rparr>"
    if "status (fst (get_isotope toLowerCase elements symbolParam isotopeId)) \<noteq> 404"
    using that get_isotope_not_found by blast
  show "snd (get_element toLowerCase elements symbolParam) = elements"
    by (rule get_element_state)
  show "snd (get_isotope toLowerCase elements symbolParam isotopeId) = elements"
    by (rule get_isotope_state)
next
  assume h: "(\<forall>s. is_ascii s \<longrightarrow> toLowerCase s = ascii_toLowerCase s)
        \<and> is_ascii symbolParam \<and> (\<forall>e\<in>set elements. is_ascii (symbol e))"
  then have "\<forall>e\<in>set elements.
      (toLowerCase (symbol e) = toLowerCase symbolParam)
        = ascii_case_insensitive_equal (symbol e) symbolParam"
    using ascii_match_iff by blast
  then show "status (fst (get_element toLowerCase elements symbolParam)) = 404 \<longleftrightarrow>
           \<not> (\<exists>e\<in>set elements. ascii_case_insensitive_equal (symbol e) symbolParam)"
    using get_element_not_found [of toLowerCase elements symbolParam] by auto
next
  assume h: "(\<forall>s. is_ascii s \<longrightarrow> toLowerCase s = ascii_toLowerCase s)
        \<and> is_ascii symbolParam \<and> is_ascii isotopeId
        \<and> (\<forall>e\<in>set elements. is_ascii (symbol e) \<and> (\<forall>i\<in>set (isotopes e). is_ascii (id' i)))"
  then have sym: "\<And>e. e \<in> set elements \<Longrightarrow>
      (toLowerCase (symbol e) = toLowerCase symbolParam)
        = ascii_case_insensitive_equal (symbol e) symbolParam"
    using ascii_match_iff by blast
  from h have iso: "\<And>e i. e \<in> set elements \<Longrightarrow> i \<in> set (isotopes e) \<Longrightarrow>
      (toLowerCase (id' i) = toLowerCase isotopeId)
        = ascii_case_insensitive_equal (id' i) isotopeId"
    using ascii_match_iff by blast
  have fe: "find (\<lambda>e. toLowerCase (symbol e) = toLowerCase symbolParam) elements
      = find (\<lambda>e. ascii_case_insensitive_equal (symbol e) symbolParam) elements"
    by (rule find_cong) (simp_all add: sym)
  have "(\<exists>e\<in>set elements. toLowerCase (symbol e) = toLowerCase symbolParam)
      \<longleftrightarrow> (\<exists>e\<in>set elements. ascii_case_insensitive_equal (symbol e) symbolParam)"
    using sym by blast
  moreover have "(\<exists>e. find (\<lambda>e. toLowerCase (symbol e) = toLowerCase symbolParam) elements = Some e
              \<and> \<not> (\<exists>i\<in>set (isotopes e). toLowerCase (id' i) = toLowerCase isotopeId))
      \<longleftrightarrow> (\<exists>e. find (\<lambda>e. ascii_case_insensitive_equal (symbol e) symbolParam) elements = Some e
              \<and> \<not> (\<exists>i\<in>set (isotopes e). ascii_case_insensitive_equal (id' i) isotopeId))"
    unfolding fe using iso find_Some_in_set by metis
  ultimately show "status (fst (get_isotope toLowerCase elements symbolParam isotopeId)) = 404 \<longleftrightarrow>
           \<not> (\<exists>e\<in>set elements. ascii_case_insensitive_equal (symbol e) symbolParam)
           \<or> (\<exists>e. find (\<lambda>e. ascii_case_insensitive_equal (symbol e) symbolParam) elements = Some e
                 \<and> \<not> (\<exists>i\<in>set (isotopes e). ascii_case_insensitive_equal (id' i) isotopeId))"
    using get_isotope_not_found [of toLowerCase elements symbolParam isotopeId] by simp
qed

theorem lookup_not_found_iff_witness:
  "is_ascii ''c'' \<and> is_ascii ''c-14'' \<and> is_ascii ''Na''
   \<and> status (fst (get_isotope ascii_toLowerCase [carbon, fluorine] ''c'' ''c-14'')) \<noteq> 404
   \<and> (\<exists>e\<in>set [carbon, fluorine]. ascii_case_insensitive_equal (symbol e) ''c'')
   \<and> (\<exists>e i. fst (get_isotope ascii_toLowerCase [carbon, fluorine] ''c'' ''c-14'') =
               \<lparr> status = 200, body = ElementIsotopeJson e i \<rparr>)
   \<and> (\<exists>e i. e \<in> set [carbon, fluorine] \<and> i \<in> set (isotopes e)
          \<and> ascii_case_insensitive_equal (symbol e) ''c''
          \<and> ascii_case_insensitive_equal (id' i) ''c-14'')
   \<and> snd (get_isotope ascii_toLowerCase [carbon, fluorine] ''c'' ''c-14'') = [carbon, fluorine]
   \<and> status (fst (get_element ascii_toLowerCase [carbon, fluorine] ''c'')) \<noteq> 404
   \<and> status (fst (get_element ascii_toLowerCase [carbon, fluorine] ''Na'')) = 404
   \<and> \<not> (\<exists>e\<in>set [carbon, fluorine]. ascii_case_insensitive_equal (symbol e) ''Na'')
   \<and> status (fst (get_isotope ascii_toLowerCase [carbon, fluorine] ''C'' ''C-15'')) = 404"
proof -
  have lc: "\<forall>s. is_ascii s \<longrightarrow> ascii_toLowerCase s = ascii_toLowerCase s"
    by simp
  have asc: "is_ascii ''c''" "is_ascii ''c-14''" "is_ascii ''Na''"
    by (simp_all add: is_ascii_def)
  have ds: "\<forall>e\<in>set [carbon, fluorine]. is_ascii (symbol e)"
    by (simp add: carbon_def fluorine_def is_ascii_def)
  have ds2: "\<forall>e\<in>set [carbon, fluorine].
      is_ascii (symbol e) \<and> (\<forall>i\<in>set (isotopes e). is_ascii (id' i))"
    by code_simp
  have a: "status (fst (get_isotope ascii_toLowerCase [carbon, fluorine] ''c'' ''c-14'')) \<noteq> 404"
    by code_simp
  have b: "status (fst (get_element ascii_toLowerCase [carbon, fluorine] ''Na'')) = 404"
    by code_simp
  have c: "status (fst (get_isotope ascii_toLowerCase [carbon, fluorine] ''C'' ''C-15'')) = 404"
    by code_simp
  have d: "status (fst (get_element ascii_toLowerCase [carbon, fluorine] ''c'')) \<noteq> 404"
    by code_simp
  note found = lookup_not_found_iff [of ascii_toLowerCase "[carbon, fluorine]" "''c''" "''c-14''"]
  note missing = lookup_not_found_iff [of ascii_toLowerCase "[carbon, fluorine]" "''Na''" "''c-14''"]
  from found lc asc ds d
  have "\<exists>e\<in>set [carbon, fluorine]. ascii_case_insensitive_equal (symbol e) ''c''"
    by blast
  moreover from found a
  have "\<exists>e i. fst (get_isotope ascii_toLowerCase [carbon, fluorine] ''c'' ''c-14'') =
               \<lparr> status = 200, body = ElementIsotopeJson e i \<rparr>"
    by blast
  moreover from found lc asc ds2 a
  have "\<exists>e i. e \<in> set [carbon, fluorine] \<and> i \<in> set (isotopes e)
          \<and> ascii_case_insensitive_equal (symbol e) ''c''
          \<and> ascii_case_insensitive_equal (id' i) ''c-14''"
    using find_Some_in_set
      [of "\<lambda>e. ascii_case_insensitive_equal (symbol e) ''c''" "[carbon, fluorine]"]
      find_None_bex
      [of "\<lambda>e. ascii_case_insensitive_equal (symbol e) ''c''" "[carbon, fluorine]"]
    by (metis not_Some_eq)
  moreover from found
  have "snd (get_isotope ascii_toLowerCase [carbon, fluorine] ''c'' ''c-14'') = [carbon, fluorine]"
    by blast
  moreover from missing lc asc ds b
  have "\<not> (\<exists>e\<in>set [carbon, fluorine]. ascii_case_insensitive_equal (symbol e) ''Na'')"
    by blast
  ultimately show ?thesis
    using asc a b c d by blast
qed

section \<open>Properties of the isotope construction\<close>

text \<open>
  C10. For every constructed isotope the derived electron count is
  \<open>max (protons - positrons) 0\<close>, where an absent \<open>positrons\<close> option counts as 0. The
  count is never negative: when the positrons exceed the protons it is 0, and not the
  difference \<open>protons - positrons\<close>.
\<close>

theorem buildIsotope_electrons_clamped:
  "electrons (particleBreakdown (buildIsotope element options)) =
     max (atomicNumber element
          - (case IsotopeOptions.positrons options of None \<Rightarrow> 0 | Some v \<Rightarrow> v)) 0
   \<and> protons (particleBreakdown (buildIsotope element options)) = atomicNumber element
   \<and> positrons (particleBreakdown (buildIsotope element options)) =
       Some (case IsotopeOptions.positrons options of None \<Rightarrow> 0 | Some v \<Rightarrow> v)
   \<and> 0 \<le> electrons (particleBreakdown (buildIsotope element options))
   \<and> (\<forall>v. IsotopeOptions.positrons options = Some v \<and> atomicNumber element < v \<longrightarrow>
         electrons (particleBreakdown (buildIsotope element options)) = 0
         \<and> electrons (particleBreakdown (buildIsotope element options))
             \<noteq> atomicNumber element - v)"
  by (simp add: buildIsotope_def Let_def split: option.split)

theorem buildIsotope_electrons_clamped_witness:
  "IsotopeOptions.positrons
     \<lparr> IsotopeFields.name = ''Hydrogen-1'', IsotopeFields.neutrons = 0, abundance = ''Trace'',
       description = ''Test'', halfLife = None,
       bohrModel = \<lparr> shells = [1], electronConfiguration = ''1s1'', notes' = None \<rparr>,
       IsotopeOptions.positrons = Some 2 \<rparr> = Some 2
   \<and> atomicNumber \<lparr> atomicNumber = 1, symbol = ''H'' \<rparr> < 2
   \<and> electrons (particleBreakdown (buildIsotope \<lparr> atomicNumber = 1, symbol = ''H'' \<rparr>
       \<lparr> IsotopeFields.name = ''Hydrogen-1'', IsotopeFields.neutrons = 0, abundance = ''Trace'',
         description = ''Test'', halfLife = None,
         bohrModel = \<lparr> shells = [1], electronConfiguration = ''1s1'', notes' = None \<rparr>,
         IsotopeOptions.positrons = Some 2 \<rparr>)) = 0"
  using buildIsotope_electrons_clamped [of "\<lparr> atomicNumber = 1, symbol = ''H'' \<rparr>"
      "\<lparr> IsotopeFields.name = ''Hydrogen-1'', IsotopeFields.neutrons = 0, abundance = ''Trace'',
         description = ''Test'', halfLife = None,
         bohrModel = \<lparr> shells = [1], electronConfiguration = ''1s1'', notes' = None \<rparr>,
         IsotopeOptions.positrons = Some 2 \<rparr>"]
  by simp


section \<open>Properties of the Bohr model view\<close>

lemma length_array_from_length_map [simp]:
  "length (array_from_length_map n f) = nat n"
  by (simp add: array_from_length_map_def)

lemma nth_array_from_length_map [simp]:
  "k < nat n \<Longrightarrow> array_from_length_map n f ! k = f k"
  by (simp add: array_from_length_map_def)

lemma set_array_from_length_map:
  "set (array_from_length_map n f) = f ` {..<nat n}"
  by (auto simp: array_from_length_map_def)

lemmas BohrModelView_simps = BohrModelView_def Let_def

lemma length_bohrShells [simp]:
  "length (bohrShells (BohrModelView isotope)) = length (shells (bohrModel isotope))"
  by (simp add: BohrModelView_simps)

lemma orbitSpacing_value:
  "orbitSpacing (BohrModelView isotope) =
     Some (if 0 < length (shells (bohrModel isotope))
           then (diagramSize (BohrModelView isotope) / 2 - 20 - nucleusRadius (BohrModelView isotope))
                  / real (length (shells (bohrModel isotope)))
           else 0)"
  by (simp add: BohrModelView_simps js_div_def)

lemma nth_bohrShells:
  "i < length (shells (bohrModel isotope)) \<Longrightarrow>
     bohrShells (BohrModelView isotope) ! i =
       bohrShell (nucleusRadius (BohrModelView isotope)) (orbitSpacing (BohrModelView isotope))
         (shells (bohrModel isotope) ! i) i"
  by (simp add: BohrModelView_simps)

lemma shells_carbon14: "shells (bohrModel carbon14) = [2, 4]"
  by (simp add: carbon14_def buildIsotope_def)

text \<open>
  C1. For every isotope, whatever its shell sequence, the Bohr model view computes
  \<open>nucleusSize = min(120, max(72, 54 + shellCount * 6))\<close>,
  \<open>nucleusRadius = nucleusSize / 2\<close>, and the orbit spacing
  \<open>(diagramSize / 2 - 20 - nucleusRadius) / shellCount\<close> when there is at least one shell
  and 0 when there is none; in both cases the spacing is a finite number.
\<close>

theorem BohrModelView_nucleus_and_spacing:
  "nucleusSize (BohrModelView isotope) =
     min 120 (max 72 (54 + real (length (shells (bohrModel isotope))) * 6))
   \<and> nucleusRadius (BohrModelView isotope) = nucleusSize (BohrModelView isotope) / 2
   \<and> orbitSpacing (BohrModelView isotope) =
       (if length (shells (bohrModel isotope)) > 0
        then Some ((diagramSize (BohrModelView isotope) / 2 - 20
                     - nucleusRadius (BohrModelView isotope))
                   / real (length (shells (bohrModel isotope))))
        else Some 0)"
  by (simp add: BohrModelView_simps js_div_def)

text \<open>
  C3. For every number of shells, \<open>diagramSize = min(480, 300 + max(shellCount - 3, 0) * 48)\<close>;
  hence the diagram size is at most 480, and an isotope with at least as many shells as
  another has at least its diagram size.
\<close>

theorem BohrModelView_diagramSize:
  "diagramSize (BohrModelView isotope) =
     min 480 (300 + max (real (length (shells (bohrModel isotope))) - 3) 0 * 48)
   \<and> diagramSize (BohrModelView isotope) \<le> 480
   \<and> (length (shells (bohrModel isotope)) \<le> length (shells (bohrModel isotope2)) \<longrightarrow>
        diagramSize (BohrModelView isotope) \<le> diagramSize (BohrModelView isotope2))"
  by (simp add: BohrModelView_simps) (auto simp: min_def max_def)

theorem BohrModelView_diagramSize_witness:
  "length (shells (bohrModel carbon14))
     \<le> length (shells (bohrModel (carbon14\<lparr> bohrModel := \<lparr> shells = [2, 8, 18, 32, 21, 9, 2],
           electronConfiguration = ''[Rn] 5f3 6d1 7s2'', notes' = None \<rparr> \<rparr>)))
   \<and> diagramSize (BohrModelView carbon14) = 300
   \<and> diagramSize (BohrModelView (carbon14\<lparr> bohrModel := \<lparr> shells = [2, 8, 18, 32, 21, 9, 2],
           electronConfiguration = ''[Rn] 5f3 6d1 7s2'', notes' = None \<rparr> \<rparr>)) = 480
   \<and> diagramSize (BohrModelView carbon14)
       \<le> diagramSize (BohrModelView (carbon14\<lparr> bohrModel := \<lparr> shells = [2, 8, 18, 32, 21, 9, 2],
           electronConfiguration = ''[Rn] 5f3 6d1 7s2'', notes' = None \<rparr> \<rparr>))"
  using BohrModelView_diagramSize [of carbon14
      "carbon14\<lparr> bohrModel := \<lparr> shells = [2, 8, 18, 32, 21, 9, 2],
           electronConfiguration = ''[Rn] 5f3 6d1 7s2'', notes' = None \<rparr> \<rparr>"]
    BohrModelView_diagramSize [of "carbon14\<lparr> bohrModel := \<lparr> shells = [2, 8, 18, 32, 21, 9, 2],
           electronConfiguration = ''[Rn] 5f3 6d1 7s2'', notes' = None \<rparr> \<rparr>" carbon14]
  by (simp add: shells_carbon14)

text \<open>
  C2. For every isotope and every 0-based index \<open>i\<close> of a shell, the ring of that shell
  has radius \<open>nucleusRadius + orbitSpacing * (i + 1)\<close>; a shell of \<open>n \<ge> 1\<close> electrons has
  exactly \<open>n\<close> electron elements, the \<open>k\<close>-th rotated by \<open>(360 / n) * k\<close> degrees and moved
  out by the radius of the ring; the rotation period of the ring is \<open>14 + i * 5\<close> seconds,
  strictly smaller than that of every later shell.
\<close>

theorem BohrModelView_shell_geometry:
  assumes "i < length (shells (bohrModel isotope))"
  shows "(let L = BohrModelView isotope;
              shell = bohrShells L ! i;
              electronCount = shells (bohrModel isotope) ! i;
              spacing = (diagramSize L / 2 - 20 - nucleusRadius L)
                          / real (length (shells (bohrModel isotope)))
          in length (bohrShells L) = length (shells (bohrModel isotope))
             \<and> orbitSpacing L = Some spacing
             \<and> radius shell = Some (nucleusRadius L + spacing * (real i + 1))
             \<and> (1 \<le> electronCount \<longrightarrow>
                  int (length (bohrElectrons shell)) = electronCount
                  \<and> (\<forall>k < nat electronCount.
                        rotate' (bohrElectrons shell ! k)
                          = Some (360 / real_of_int electronCount * real k)
                        \<and> translateX (bohrElectrons shell ! k) = radius shell))
             \<and> duration shell = 14 + i * 5
             \<and> (\<forall>j. i < j \<and> j < length (shells (bohrModel isotope)) \<longrightarrow>
                   duration shell < duration (bohrShells L ! j)))"
proof -
  from assms have pos: "shells (bohrModel isotope) \<noteq> []"
    by auto
  have spacing: "orbitSpacing (BohrModelView isotope) =
      Some ((diagramSize (BohrModelView isotope) / 2 - 20 - nucleusRadius (BohrModelView isotope))
              / real (length (shells (bohrModel isotope))))"
    unfolding orbitSpacing_value using pos by simp
  show ?thesis
    using assms pos by (simp add: nth_bohrShells bohrShell_def Let_def js_div_def spacing)
qed

theorem BohrModelView_shell_geometry_witness:
  "1 < length (shells (bohrModel carbon14))
   \<and> 1 \<le> shells (bohrModel carbon14) ! 1
   \<and> orbitSpacing (BohrModelView carbon14) = Some 47
   \<and> radius (bohrShells (BohrModelView carbon14) ! 1) = Some 130
   \<and> length (bohrElectrons (bohrShells (BohrModelView carbon14) ! 1)) = 4
   \<and> rotate' (bohrElectrons (bohrShells (BohrModelView carbon14) ! 1) ! 3) = Some 270
   \<and> translateX (bohrElectrons (bohrShells (BohrModelView carbon14) ! 1) ! 3) = Some 130
   \<and> duration (bohrShells (BohrModelView carbon14) ! 1) = 19
   \<and> duration (bohrShells (BohrModelView carbon14) ! 0)
       < duration (bohrShells (BohrModelView carbon14) ! 1)"
proof -
  have len: "(1::nat) < length (shells (bohrModel carbon14))"
    and len0: "(0::nat) < length (shells (bohrModel carbon14))"
    and cnt: "shells (bohrModel carbon14) ! 1 = 4"
    by (simp_all add: shells_carbon14)
  have sizes: "diagramSize (BohrModelView carbon14) = 300"
    "nucleusRadius (BohrModelView carbon14) = 36"
    by (simp_all add: BohrModelView_def Let_def shells_carbon14)
  from BohrModelView_shell_geometry [OF len] BohrModelView_shell_geometry [OF len0]
  show ?thesis
    by (simp add: Let_def cnt sizes shells_carbon14)
qed

lemma bohrShell_finite:
  "radius (bohrShell r (Some s) c i) \<noteq> None
   \<and> width (bohrShell r (Some s) c i) \<noteq> None
   \<and> height (bohrShell r (Some s) c i) \<noteq> None
   \<and> (\<forall>e\<in>set (bohrElectrons (bohrShell r (Some s) c i)).
         rotate' e \<noteq> None \<and> translateX e \<noteq> None)"
  by (auto simp: bohrShell_def Let_def set_array_from_length_map js_div_def)

lemma bohrShell_no_electrons:
  "c \<le> 0 \<Longrightarrow> bohrElectrons (bohrShell r s c i) = []"
  by (simp add: bohrShell_def Let_def array_from_length_map_def)

text \<open>
  C4. The view stays well defined on degenerate input. With no shells the orbit spacing
  is 0, without a division by zero, and no ring is produced; a shell entry of 0 (or less)
  yields a ring with no electron elements. For every input the orbit spacing and every
  radius, width, height, rotation and translation of the layout is a finite number: no
  division by zero is ever evaluated.
\<close>

theorem BohrModelView_degenerate_input:
  "(shells (bohrModel isotope) = [] \<longrightarrow>
      orbitSpacing (BohrModelView isotope) = Some 0 \<and> bohrShells (BohrModelView isotope) = [])
   \<and> (\<forall>i < length (shells (bohrModel isotope)).
        shells (bohrModel isotope) ! i \<le> 0 \<longrightarrow>
          bohrElectrons (bohrShells (BohrModelView isotope) ! i) = [])
   \<and> orbitSpacing (BohrModelView isotope) \<noteq> None
   \<and> (\<forall>shell\<in>set (bohrShells (BohrModelView isotope)).
        radius shell \<noteq> None \<and> width shell \<noteq> None \<and> height shell \<noteq> None
        \<and> (\<forall>e\<in>set (bohrElectrons shell). rotate' e \<noteq> None \<and> translateX e \<noteq> None))"
proof (intro conjI)
  show "shells (bohrModel isotope) = [] \<longrightarrow>
      orbitSpacing (BohrModelView isotope) = Some 0 \<and> bohrShells (BohrModelView isotope) = []"
    by (simp add: BohrModelView_simps)
  show "\<forall>i < length (shells (bohrModel isotope)).
        shells (bohrModel isotope) ! i \<le> 0 \<longrightarrow>
          bohrElectrons (bohrShells (BohrModelView isotope) ! i) = []"
    by (simp add: nth_bohrShells bohrShell_no_electrons)
  show "orbitSpacing (BohrModelView isotope) \<noteq> None"
    by (simp add: orbitSpacing_value)
  show "\<forall>shell\<in>set (bohrShells (BohrModelView isotope)).
        radius shell \<noteq> None \<and> width shell \<noteq> None \<and> height shell \<noteq> None
        \<and> (\<forall>e\<in>set (bohrElectrons shell). rotate' e \<noteq> None \<and> translateX e \<noteq> None)"
  proof
    fix shell
    assume "shell \<in> set (bohrShells (BohrModelView isotope))"
    then obtain i where i: "i < length (shells (bohrModel isotope))"
      and shell: "shell = bohrShells (BohrModelView isotope) ! i"
      by (auto simp: in_set_conv_nth)
    obtain s where s: "orbitSpacing (BohrModelView isotope) = Some s"
      by (simp add: orbitSpacing_value)
    from i shell s
    have "shell = bohrShell (nucleusRadius (BohrModelView isotope)) (Some s)
                    (shells (bohrModel isotope) ! i) i"
      by (simp add: nth_bohrShells)
    then show "radius shell \<noteq> None \<and> width shell \<noteq> None \<and> height shell \<noteq> None
        \<and> (\<forall>e\<in>set (bohrElectrons shell). rotate' e \<noteq> None \<and> translateX e \<noteq> None)"
      using bohrShell_finite by simp
  qed
qed

theorem BohrModelView_degenerate_input_witness:
  "shells (bohrModel (carbon14\<lparr> bohrModel := \<lparr> shells = [],
       electronConfiguration = ''1s2 2s2 2p2'', notes' = None \<rparr> \<rparr>)) = []
   \<and> orbitSpacing (BohrModelView (carbon14\<lparr> bohrModel := \<lparr> shells = [],
       electronConfiguration = ''1s2 2s2 2p2'', notes' = None \<rparr> \<rparr>)) = Some 0
   \<and> bohrShells (BohrModelView (carbon14\<lparr> bohrModel := \<lparr> shells = [],
       electronConfiguration = ''1s2 2s2 2p2'', notes' = None \<rparr> \<rparr>)) = []
   \<and> 1 < length (shells (bohrModel (carbon14\<lparr> bohrModel := \<lparr> shells = [2, 0],
       electronConfiguration = ''1s2 2s2 2p2'', notes' = None \<rparr> \<rparr>)))
   \<and> shells (bohrModel (carbon14\<lparr> bohrModel := \<lparr> shells = [2, 0],
       electronConfiguration = ''1s2 2s2 2p2'', notes' = None \<rparr> \<rparr>)) ! 1 \<le> 0
   \<and> bohrElectrons (bohrShells (BohrModelView (carbon14\<lparr> bohrModel := \<lparr> shells = [2, 0],
       electronConfiguration = ''1s2 2s2 2p2'', notes' = None \<rparr> \<rparr>)) ! 1) = []
   \<and> radius (bohrShells (BohrModelView (carbon14\<lparr> bohrModel := \<lparr> shells = [2, 0],
       electronConfiguration = ''1s2 2s2 2p2'', notes' = None \<rparr> \<rparr>)) ! 1) \<noteq> None
   \<and> rotate' (bohrElectrons (bohrShells (BohrModelView (carbon14\<lparr> bohrModel := \<lparr> shells = [2, 0],
       electronConfiguration = ''1s2 2s2 2p2'', notes' = None \<rparr> \<rparr>)) ! 0) ! 1) = Some 180
   \<and> length (bohrElectrons (bohrShells (BohrModelView (carbon14\<lparr> bohrModel := \<lparr> shells = [2, 0],
       electronConfiguration = ''1s2 2s2 2p2'', notes' = None \<rparr> \<rparr>)) ! 0)) = 2"
  using BohrModelView_degenerate_input [of "carbon14\<lparr> bohrModel := \<lparr> shells = [],
       electronConfiguration = ''1s2 2s2 2p2'', notes' = None \<rparr> \<rparr>"]
    BohrModelView_degenerate_input [of "carbon14\<lparr> bohrModel := \<lparr> shells = [2, 0],
       electronConfiguration = ''1s2 2s2 2p2'', notes' = None \<rparr> \<rparr>"]
  by (simp add: nth_bohrShells bohrShell_def Let_def array_from_length_map_def js_div_def)


section \<open>Properties of the quantum arena\<close>

text \<open>The particle mist holds at most 24 descriptors of each of its three categories.\<close>

lemma length_ParticleMist:
  "length (ParticleMist quarksUp quarksDown positronCount) =
     nat (min quarksUp 24) + nat (min quarksDown 24) + nat (min positronCount 24)"
  by (simp add: ParticleMist_def buildParticleDescriptors_def Let_def array_from_length_map_def)

text \<open>
  C5. For every particle count \<open>count \<ge> 0\<close>, \<open>buildParticleDescriptors\<close> produces exactly
  \<open>min(count, 24)\<close> descriptors, so 24 for a count of 500; the descriptor at \<open>index\<close> has
  the position \<open>(cos(angle) * 110, sin(angle) * 90, sin(index * 1.5) * 60)\<close> with
  \<open>angle = (index / min(count, 24)) * 2\<pi>\<close>, and the colour of its category.
\<close>

theorem buildParticleDescriptors_capped:
  assumes "0 \<le> count"
  shows "int (length (buildParticleDescriptors count colour)) = min count 24
     \<and> length (buildParticleDescriptors 500 colour) = 24
     \<and> (\<forall>index < nat (min count 24).
          (let d = buildParticleDescriptors count colour ! index;
               angle = real index / real_of_int (min count 24) * (2 * pi)
           in x d = Some (cos angle * 110)
              \<and> y d = Some (sin angle * 90)
              \<and> z d = sin (real index * 1.5) * 60
              \<and> color d = colour))"
proof (intro conjI allI impI)
  show "int (length (buildParticleDescriptors count colour)) = min count 24"
    using assms by (simp add: buildParticleDescriptors_def Let_def)
  show "length (buildParticleDescriptors 500 colour) = 24"
    by (simp add: buildParticleDescriptors_def Let_def)
next
  fix index
  assume index: "index < nat (min count 24)"
  then have "1 \<le> min count 24"
    by linarith
  then have limit: "max (min count 24) 1 = min count 24"
    by simp
  have nz: "real_of_int (min count 24) \<noteq> 0"
    using \<open>1 \<le> min count 24\<close> by linarith
  show "(let d = buildParticleDescriptors count colour ! index;
               angle = real index / real_of_int (min count 24) * (2 * pi)
           in x d = Some (cos angle * 110)
              \<and> y d = Some (sin angle * 90)
              \<and> z d = sin (real index * 1.5) * 60
              \<and> color d = colour)"
    using index nz
    by (simp add: buildParticleDescriptors_def Let_def limit js_div_def mult.assoc mult.commute[of 2 pi])
qed

theorem buildParticleDescriptors_capped_witness:
  "(0::int) \<le> 500
   \<and> length (buildParticleDescriptors 500 ''#c084fc'') = 24
   \<and> 0 < nat (min 500 24)
   \<and> x (buildParticleDescriptors 500 ''#c084fc'' ! 0) = Some 110
   \<and> y (buildParticleDescriptors 500 ''#c084fc'' ! 0) = Some 0
   \<and> z (buildParticleDescriptors 500 ''#c084fc'' ! 0) = 0"
proof -
  have h: "(0::int) \<le> 500"
    by simp
  have i: "(0::nat) < nat (min 500 24)"
    by simp
  from buildParticleDescriptors_capped [OF h, of "''#c084fc''"] i
  show ?thesis
    by (simp add: Let_def)
qed

text \<open>
  C6. For all proton and neutron counts \<open>p, n \<ge> 0\<close>, the nucleus swarm has exactly
  \<open>min(p + n, 28)\<close> markers, never more than 28. The marker at \<open>index\<close> has the proton
  colour when \<open>index\<close> is even and the neutron colour when it is odd; it sits on the ring of
  radius 24 at the angle \<open>(index / total) * 2\<pi>\<close>, with the depth offset \<open>sin(index) * 10\<close>.
\<close>

theorem renderNucleusSwarm_capped:
  assumes "0 \<le> p" and "0 \<le> n"
  shows "int (length (renderNucleusSwarm p n)) = min (p + n) 28
     \<and> length (renderNucleusSwarm p n) \<le> 28
     \<and> (\<forall>index < length (renderNucleusSwarm p n).
          (let marker = renderNucleusSwarm p n ! index;
               angle = real index / real_of_int (min (p + n) 28) * (2 * pi)
           in background marker = (if even index then ''#fb7185'' else ''#38bdf8'')
              \<and> translate3d marker =
                  (Some (cos angle * 24), Some (sin angle * 24), sin (real index) * 10)))"
proof (intro conjI allI impI)
  show len: "int (length (renderNucleusSwarm p n)) = min (p + n) 28"
    using assms by (simp add: renderNucleusSwarm_def Let_def)
  then show "length (renderNucleusSwarm p n) \<le> 28"
    by linarith
next
  fix index
  assume "index < length (renderNucleusSwarm p n)"
  then have index: "index < nat (min (p + n) 28)"
    by (simp add: renderNucleusSwarm_def Let_def)
  then have nz: "real_of_int (min (p + n) 28) \<noteq> 0"
    by linarith
  show "(let marker = renderNucleusSwarm p n ! index;
               angle = real index / real_of_int (min (p + n) 28) * (2 * pi)
           in background marker = (if even index then ''#fb7185'' else ''#38bdf8'')
              \<and> translate3d marker =
                  (Some (cos angle * 24), Some (sin angle * 24), sin (real index) * 10))"
    using index nz
    by (simp add: renderNucleusSwarm_def Let_def js_div_def mult.assoc mult.commute[of 2 pi] even_iff_mod_2_eq_zero)
qed

theorem renderNucleusSwarm_capped_witness:
  "(0::int) \<le> 6 \<and> (0::int) \<le> 8
   \<and> length (renderNucleusSwarm 6 8) = 14
   \<and> length (renderNucleusSwarm 92 146) = 28
   \<and> background (renderNucleusSwarm 6 8 ! 0) = ''#fb7185''
   \<and> background (renderNucleusSwarm 6 8 ! 1) = ''#38bdf8''
   \<and> translate3d (renderNucleusSwarm 6 8 ! 0) = (Some 24, Some 0, 0)"
proof -
  have h: "(0::int) \<le> 6" "(0::int) \<le> 8" "(0::int) \<le> 92" "(0::int) \<le> 146"
    by simp_all
  from renderNucleusSwarm_capped [OF h(1) h(2)] renderNucleusSwarm_capped [OF h(3) h(4)]
  have len: "length (renderNucleusSwarm 6 8) = 14" "length (renderNucleusSwarm 92 146) = 28"
    by simp_all
  from renderNucleusSwarm_capped [OF h(1) h(2)] len
  have markers: "\<forall>index<14. (let marker = renderNucleusSwarm 6 8 ! index;
               angle = real index / real_of_int (min (6 + 8) 28) * (2 * pi)
           in background marker = (if even index then ''#fb7185'' else ''#38bdf8'')
              \<and> translate3d marker =
                  (Some (cos angle * 24), Some (sin angle * 24), sin (real index) * 10))"
    by simp
  from markers [THEN spec, of 0] markers [THEN spec, of 1] len show ?thesis
    by (simp add: Let_def)
qed


section \<open>The particle breakdown of dataset isotopes\<close>

text \<open>
  C8, as stated, has the electron count equal to \<open>protons - positrons\<close> for every
  isotope. The construction clamps the count at 0: with one proton and two positrons the
  electron count is 0, not \<open>1 - 2\<close>.
\<close>

theorem buildIsotope_electrons_exact_counterexample:
  "protons (particleBreakdown (buildIsotope \<lparr> atomicNumber = 1, symbol = ''H'' \<rparr>
       \<lparr> IsotopeFields.name = ''Hydrogen-1'', IsotopeFields.neutrons = 0, abundance = ''Trace'',
         description = ''Test'', halfLife = None,
         bohrModel = \<lparr> shells = [1], electronConfiguration = ''1s1'', notes' = None \<rparr>,
         IsotopeOptions.positrons = Some 2 \<rparr>)) = 1
   \<and> positrons (particleBreakdown (buildIsotope \<lparr> atomicNumber = 1, symbol = ''H'' \<rparr>
       \<lparr> IsotopeFields.name = ''Hydrogen-1'', IsotopeFields.neutrons = 0, abundance = ''Trace'',
         description = ''Test'', halfLife = None,
         bohrModel = \<lparr> shells = [1], electronConfiguration = ''1s1'', notes' = None \<rparr>,
         IsotopeOptions.positrons = Some 2 \<rparr>)) = Some 2
   \<and> electrons (particleBreakdown (buildIsotope \<lparr> atomicNumber = 1, symbol = ''H'' \<rparr>
       \<lparr> IsotopeFields.name = ''Hydrogen-1'', IsotopeFields.neutrons = 0, abundance = ''Trace'',
         description = ''Test'', halfLife = None,
         bohrModel = \<lparr> shells = [1], electronConfiguration = ''1s1'', notes' = None \<rparr>,
         IsotopeOptions.positrons = Some 2 \<rparr>)) \<noteq> 1 - 2"
  by (simp add: buildIsotope_def Let_def)

text \<open>
  C8, amended. The dataset's Carbon-14 (6 protons, 8 neutrons, shells \<open>[2, 4]\<close>) has 6
  electrons, 20 up quarks, 22 down quarks and 0 positrons, and its Bohr model view has two
  rings, of 2 and of 4 evenly spaced electrons. Fluorine-18 (9 protons, 9 neutrons, 1
  positron) has \<open>9 - 1 = 8\<close> electrons, while its shells sum to 9. For every constructed
  isotope the electron count is \<open>max(protons - positrons, 0)\<close>, which is
  \<open>protons - positrons\<close> whenever the positrons do not exceed the protons, whatever the
  shells; \<open>quarks.up = 2 * protons + neutrons\<close> and \<open>quarks.down = protons + 2 * neutrons\<close>.
\<close>

theorem isotope_particle_breakdown:
  "particleBreakdown carbon14 =
     \<lparr> protons = 6, neutrons = 8, electrons = 6, quarks = \<lparr> up = 20, down = 22 \<rparr>,
       positrons = Some 0 \<rparr>
   \<and> shells (bohrModel carbon14) = [2, 4]
   \<and> map (\<lambda>shell. map rotate' (bohrElectrons shell)) (bohrShells (BohrModelView carbon14)) =
       [ [Some 0, Some 180], [Some 0, Some 90, Some 180, Some 270] ]
   \<and> protons (particleBreakdown fluorine18) = 9
   \<and> neutrons (particleBreakdown fluorine18) = 9
   \<and> positrons (particleBreakdown fluorine18) = Some 1
   \<and> electrons (particleBreakdown fluorine18) = 8
   \<and> sum_list (shells (bohrModel fluorine18)) = 9
   \<and> (let b = particleBreakdown (buildIsotope element options);
           q = (case IsotopeOptions.positrons options of None \<Rightarrow> 0 | Some v \<Rightarrow> v)
       in protons b = atomicNumber element
          \<and> neutrons b = IsotopeFields.neutrons options
          \<and> positrons b = Some q
          \<and> electrons b = max (protons b - q) 0
          \<and> (q \<le> protons b \<longrightarrow> electrons b = protons b - q)
          \<and> quarks b = \<lparr> up = 2 * protons b + neutrons b, down = protons b + 2 * neutrons b \<rparr>)"
proof (intro conjI)
  show "particleBreakdown carbon14 =
     \<lparr> protons = 6, neutrons = 8, electrons = 6, quarks = \<lparr> up = 20, down = 22 \<rparr>,
       positrons = Some 0 \<rparr>"
    by (simp add: carbon14_def buildIsotope_def buildQuarks_def)
  show "shells (bohrModel carbon14) = [2, 4]"
    by (rule shells_carbon14)
  show "map (\<lambda>shell. map rotate' (bohrElectrons shell)) (bohrShells (BohrModelView carbon14)) =
       [ [Some 0, Some 180], [Some 0, Some 90, Some 180, Some 270] ]"
    by (simp add: BohrModelView_def Let_def shells_carbon14 bohrShell_def
        array_from_length_map_def js_div_def upt_rec)
  show "protons (particleBreakdown fluorine18) = 9"
    "neutrons (particleBreakdown fluorine18) = 9"
    "positrons (particleBreakdown fluorine18) = Some 1"
    "electrons (particleBreakdown fluorine18) = 8"
    "sum_list (shells (bohrModel fluorine18)) = 9"
    by (simp_all add: fluorine18_def buildIsotope_def)
  show "(let b = particleBreakdown (buildIsotope element options);
           q = (case IsotopeOptions.positrons options of None \<Rightarrow> 0 | Some v \<Rightarrow> v)
       in protons b = atomicNumber element
          \<and> neutrons b = IsotopeFields.neutrons options
          \<and> positrons b = Some q
          \<and> electrons b = max (protons b - q) 0
          \<and> (q \<le> protons b \<longrightarrow> electrons b = protons b - q)
          \<and> quarks b = \<lparr> up = 2 * protons b + neutrons b, down = protons b + 2 * neutrons b \<rparr>)"
    by (simp add: buildIsotope_def buildQuarks_def Let_def)
qed

theorem isotope_particle_breakdown_witness:
  "(case IsotopeOptions.positrons
       \<lparr> IsotopeFields.name = ''Fluorine-18'', IsotopeFields.neutrons = 9,
         abundance = ''Synthetic'', description = ''Test'', halfLife = Some ''109.8 min'',
         bohrModel = \<lparr> shells = [2, 7], electronConfiguration = ''1s2 2s2 2p5'', notes' = None \<rparr>,
         IsotopeOptions.positrons = Some 1 \<rparr> of None \<Rightarrow> 0 | Some v \<Rightarrow> v)
     \<le> atomicNumber \<lparr> atomicNumber = 9, symbol = ''F'' \<rparr>
   \<and> electrons (particleBreakdown (buildIsotope \<lparr> atomicNumber = 9, symbol = ''F'' \<rparr>
       \<lparr> IsotopeFields.name = ''Fluorine-18'', IsotopeFields.neutrons = 9,
         abundance = ''Synthetic'', description = ''Test'', halfLife = Some ''109.8 min'',
         bohrModel = \<lparr> shells = [2, 7], electronConfiguration = ''1s2 2s2 2p5'', notes' = None \<rparr>,
         IsotopeOptions.positrons = Some 1 \<rparr>)) = 9 - 1
   \<and> quarks (particleBreakdown (buildIsotope \<lparr> atomicNumber = 9, symbol = ''F'' \<rparr>
       \<lparr> IsotopeFields.name = ''Fluorine-18'', IsotopeFields.neutrons = 9,
         abundance = ''Synthetic'', description = ''Test'', halfLife = Some ''109.8 min'',
         bohrModel = \<lparr> shells = [2, 7], electronConfiguration = ''1s2 2s2 2p5'', notes' = None \<rparr>,
         IsotopeOptions.positrons = Some 1 \<rparr>)) = \<lparr> up = 27, down = 27 \<rparr>"
  using isotope_particle_breakdown [of "\<lparr> atomicNumber = 9, symbol = ''F'' \<rparr>"
       "\<lparr> IsotopeFields.name = ''Fluorine-18'', IsotopeFields.neutrons = 9,
         abundance = ''Synthetic'', description = ''Test'', halfLife = Some ''109.8 min'',
         bohrModel = \<lparr> shells = [2, 7], electronConfiguration = ''1s2 2s2 2p5'', notes' = None \<rparr>,
         IsotopeOptions.positrons = Some 1 \<rparr>"]
  by (simp add: Let_def)


end
